theory Spec2Isabelle
  imports Main "HOL-Library.Char_ord" "HOL-Library.List_Lexorder" "HOL-Library.Sublist"
begin

section \<open>Python strings\<close>

text \<open>
  A Python \<open>str\<close> is modelled as a HOL \<open>string\<close>. The characters of the model are
  the ASCII ones: classifications such as \<open>isspace\<close> and \<open>lower\<close> are the ASCII
  ones, and a character above 127 is a letter, digit or space of no kind.
\<close>

definition startswith :: "string \<Rightarrow> string \<Rightarrow> bool" where
  "startswith s p = (take (length p) s = p)"

definition endswith :: "string \<Rightarrow> string \<Rightarrow> bool" where
  "endswith s p = (length p \<le> length s \<and> drop (length s - length p) s = p)"

definition lstrip_chars :: "string \<Rightarrow> string \<Rightarrow> string" where
  "lstrip_chars cs s = dropWhile (\<lambda>c. c \<in> set cs) s"

definition rstrip_chars :: "string \<Rightarrow> string \<Rightarrow> string" where
  "rstrip_chars cs s = rev (dropWhile (\<lambda>c. c \<in> set cs) (rev s))"

text \<open>\<open>s.strip(cs)\<close>\<close>

definition strip_chars :: "string \<Rightarrow> string \<Rightarrow> string" where
  "strip_chars cs s = rstrip_chars cs (lstrip_chars cs s)"

text \<open>\<open>s.split(sep)\<close> for a one-character separator: never the empty list.\<close>

fun split :: "char \<Rightarrow> string \<Rightarrow> string list" where
  "split sep [] = [[]]"
| "split sep (c # cs) =
     (if c = sep then [] # split sep cs
      else (case split sep cs of [] \<Rightarrow> [[c]] | w # ws \<Rightarrow> (c # w) # ws))"

text \<open>\<open>s.split(sep, 1)\<close> when \<open>sep\<close> occurs in \<open>s\<close>: the text before and after its
  first occurrence.\<close>

definition split1 :: "char \<Rightarrow> string \<Rightarrow> string \<times> string" where
  "split1 sep s = (takeWhile (\<lambda>c. c \<noteq> sep) s, drop 1 (dropWhile (\<lambda>c. c \<noteq> sep) s))"

text \<open>\<open>sep.join(xs)\<close>\<close>

fun join :: "string \<Rightarrow> string list \<Rightarrow> string" where
  "join sep [] = []"
| "join sep [x] = x"
| "join sep (x # y # ys) = x @ sep @ join sep (y # ys)"

definition is_upper :: "char \<Rightarrow> bool" where
  "is_upper c = (c \<in> set ''ABCDEFGHIJKLMNOPQRSTUVWXYZ'')"

definition is_lower :: "char \<Rightarrow> bool" where
  "is_lower c = (c \<in> set ''abcdefghijklmnopqrstuvwxyz'')"

definition is_alpha :: "char \<Rightarrow> bool" where
  "is_alpha c = (is_upper c \<or> is_lower c)"

definition is_digit :: "char \<Rightarrow> bool" where
  "is_digit c = (c \<in> set ''0123456789'')"

definition lower_char :: "char \<Rightarrow> char" where
  "lower_char c =
     (case map_of (zip ''ABCDEFGHIJKLMNOPQRSTUVWXYZ'' ''abcdefghijklmnopqrstuvwxyz'') c of
        None \<Rightarrow> c
      | Some l \<Rightarrow> l)"

text \<open>\<open>s.lower()\<close>\<close>

definition lower :: "string \<Rightarrow> string" where
  "lower s = map lower_char s"

text \<open>\<open>str.isspace\<close> on one character: the ASCII white space (space, tab, newline,
  vertical tab, form feed, carriage return and the four separators 28 to 31), which is
  also what \<open>\s\<close> matches and what \<open>str.strip()\<close> and \<open>str.split()\<close> remove.\<close>

definition is_space :: "char \<Rightarrow> bool" where
  "is_space c = (c \<in> set [CHR 0x20, CHR 0x09, CHR 0x0A, CHR 0x0B, CHR 0x0C, CHR 0x0D,
     CHR 0x1C, CHR 0x1D, CHR 0x1E, CHR 0x1F])"

text \<open>\<open>s.strip()\<close>\<close>

definition strip :: "string \<Rightarrow> string" where
  "strip s = rev (dropWhile is_space (rev (dropWhile is_space s)))"

text \<open>\<open>s.split()\<close>: the maximal runs of characters that are not white space.\<close>

fun split_ws_acc :: "string \<Rightarrow> string \<Rightarrow> string list" where
  "split_ws_acc w [] = (if w = [] then [] else [rev w])"
| "split_ws_acc w (c # cs) =
     (if is_space c then (if w = [] then [] else [rev w]) @ split_ws_acc [] cs
      else split_ws_acc (c # w) cs)"

definition split_ws :: "string \<Rightarrow> string list" where
  "split_ws s = split_ws_acc [] s"

section \<open>The library's URL functions\<close>

text \<open>
  \<open>urlparse\<close>, \<open>urlunparse\<close> and \<open>urljoin\<close> are functions of Python's
  \<open>urllib.parse\<close>, which the extractor imports. They are modelled after the code of
  CPython 3.11. \<open>urlsplit\<close> raises \<open>ValueError\<close> on a network location whose square
  brackets do not pair up, or whose bracketed host the \<open>ipaddress\<close> module rejects;
  the verdict of that module is the parameter \<open>host_ok\<close> of the model. (Its third
  check, \<open>_checknetloc\<close>, looks at characters outside ASCII only.)
\<close>

datatype error = ValueError | IndexError | ConnectionError | Exception

record ParseResult =
  scheme :: string
  netloc :: string
  path :: string
  params :: string
  query :: string
  fragment :: string

definition uses_relative :: "string list" where
  "uses_relative = ['''', ''ftp'', ''http'', ''gopher'', ''nntp'', ''imap'',
     ''wais'', ''file'', ''https'', ''shttp'', ''mms'',
     ''prospero'', ''rtsp'', ''rtsps'', ''rtspu'', ''sftp'',
     ''svn'', ''svn+ssh'', ''ws'', ''wss'']"

definition uses_netloc :: "string list" where
  "uses_netloc = ['''', ''ftp'', ''http'', ''gopher'', ''nntp'', ''telnet'',
     ''imap'', ''wais'', ''file'', ''mms'', ''https'', ''shttp'',
     ''snews'', ''prospero'', ''rtsp'', ''rtsps'', ''rtspu'', ''rsync'',
     ''svn'', ''svn+ssh'', ''sftp'', ''nfs'', ''git'', ''git+ssh'',
     ''ws'', ''wss'']"

definition uses_params :: "string list" where
  "uses_params = ['''', ''ftp'', ''hdl'', ''prospero'', ''http'', ''imap'',
     ''https'', ''shttp'', ''rtsp'', ''rtsps'', ''rtspu'', ''sip'',
     ''sips'', ''mms'', ''sftp'', ''tel'']"

definition scheme_char :: "char \<Rightarrow> bool" where
  "scheme_char c = (is_alpha c \<or> is_digit c \<or> c \<in> set ''+-.'')"

text \<open>The characters \<open>urlsplit\<close> strips from the left of a URL: code points 0 to 32.\<close>

definition c0_control_or_space :: "char \<Rightarrow> bool" where
  "c0_control_or_space c = ((of_char c :: nat) \<le> 32)"

definition unsafe_url_byte :: "char \<Rightarrow> bool" where
  "unsafe_url_byte c = ((of_char c :: nat) = 9 \<or> (of_char c :: nat) = 13 \<or> (of_char c :: nat) = 10)"

text \<open>\<open>_splitnetloc(url, 2)\<close>: the network location ends at the first of \<open>/?#\<close>.\<close>

definition splitnetloc :: "string \<Rightarrow> string \<times> string" where
  "splitnetloc u =
     (takeWhile (\<lambda>c. c \<notin> set ''/?#'') (drop 2 u), dropWhile (\<lambda>c. c \<notin> set ''/?#'') (drop 2 u))"

text \<open>\<open>netloc.partition('[')[2].partition(']')[0]\<close>\<close>

definition bracketed_host :: "string \<Rightarrow> string" where
  "bracketed_host n =
     takeWhile (\<lambda>c. c \<noteq> CHR '']'') (drop 1 (dropWhile (\<lambda>c. c \<noteq> CHR ''['') n))"

definition urlsplit :: "(string \<Rightarrow> bool) \<Rightarrow> string \<Rightarrow> string \<Rightarrow> error + (string \<times> string \<times> string \<times> string \<times> string)" where
  "urlsplit host_ok url0 scheme0 =
     (let url1 = filter (\<lambda>c. \<not> unsafe_url_byte c) (dropWhile c0_control_or_space url0);
          scheme1 = filter (\<lambda>c. \<not> unsafe_url_byte c)
                      (rev (dropWhile c0_control_or_space (rev (dropWhile c0_control_or_space scheme0))));
          i = length (takeWhile (\<lambda>c. c \<noteq> CHR '':'') url1);
          (scheme2, url2) =
            (if CHR '':'' \<in> set url1 \<and> 0 < i \<and> is_alpha (hd url1) \<and> list_all scheme_char (take i url1)
             then (lower (take i url1), drop (i + 1) url1)
             else (scheme1, url1));
          (netloc2, url3) = (if take 2 url2 = ''//'' then splitnetloc url2 else ('''', url2))
      in if take 2 url2 = ''//'' \<and>
            ((CHR ''['' \<in> set netloc2 \<and> CHR '']'' \<notin> set netloc2) \<or>
             (CHR '']'' \<in> set netloc2 \<and> CHR ''['' \<notin> set netloc2))
         then Inl ValueError
         else if take 2 url2 = ''//'' \<and> CHR ''['' \<in> set netloc2 \<and> CHR '']'' \<in> set netloc2
                 \<and> \<not> host_ok (bracketed_host netloc2)
         then Inl ValueError
         else
           (let (url4, fragment2) = (if CHR ''#'' \<in> set url3 then split1 (CHR ''#'') url3 else (url3, ''''));
                (url5, query2) = (if CHR ''?'' \<in> set url4 then split1 (CHR ''?'') url4 else (url4, ''''))
            in Inr (scheme2, netloc2, url5, query2, fragment2)))"

text \<open>\<open>_splitparams\<close>, called on a path that holds a semicolon: the parameters start at
  the first semicolon of the last path segment.\<close>

definition splitparams :: "string \<Rightarrow> string \<times> string" where
  "splitparams u =
     (if CHR ''/'' \<in> set u then
        (let k = length u - length (takeWhile (\<lambda>c. c \<noteq> CHR ''/'') (rev u)) - 1;
             seg = drop k u
         in if CHR '';'' \<in> set seg
            then (take k u @ takeWhile (\<lambda>c. c \<noteq> CHR '';'') seg,
                  drop 1 (dropWhile (\<lambda>c. c \<noteq> CHR '';'') seg))
            else (u, ''''))
      else split1 (CHR '';'') u)"

definition urlparse :: "(string \<Rightarrow> bool) \<Rightarrow> string \<Rightarrow> string \<Rightarrow> error + ParseResult" where
  "urlparse host_ok url0 scheme0 =
     (case urlsplit host_ok url0 scheme0 of
        Inl e \<Rightarrow> Inl e
      | Inr (sch, nl, u, q, f) \<Rightarrow>
          (let (u', ps) = (if sch \<in> set uses_params \<and> CHR '';'' \<in> set u then splitparams u else (u, ''''))
           in Inr \<lparr>scheme = sch, netloc = nl, path = u', params = ps, query = q, fragment = f\<rparr>))"

definition urlunsplit :: "string \<Rightarrow> string \<Rightarrow> string \<Rightarrow> string \<Rightarrow> string \<Rightarrow> string" where
  "urlunsplit sch nl u q f =
     (let u1 = (if nl \<noteq> [] \<or> (sch \<noteq> [] \<and> sch \<in> set uses_netloc) \<or> take 2 u = ''//''
                then ''//'' @ nl @ (if u \<noteq> [] \<and> take 1 u \<noteq> ''/'' then ''/'' @ u else u)
                else u);
          u2 = (if sch \<noteq> [] then sch @ '':'' @ u1 else u1);
          u3 = (if q \<noteq> [] then u2 @ ''?'' @ q else u2)
      in if f \<noteq> [] then u3 @ ''#'' @ f else u3)"

definition urlunparse :: "ParseResult \<Rightarrow> string" where
  "urlunparse r =
     urlunsplit (scheme r) (netloc r)
       (if params r \<noteq> [] then path r @ '';'' @ params r else path r) (query r) (fragment r)"

text \<open>The loop of \<open>urljoin\<close> over the segments: \<open>..\<close> pops the resolved path (when
  there is something to pop), \<open>.\<close> is skipped.\<close>

fun resolve_segments :: "string list \<Rightarrow> string list \<Rightarrow> string list" where
  "resolve_segments resolved [] = resolved"
| "resolve_segments resolved (seg # segs) =
     (if seg = ''..'' then resolve_segments (butlast resolved) segs
      else if seg = ''.'' then resolve_segments resolved segs
      else resolve_segments (resolved @ [seg]) segs)"

text \<open>\<open>segments[1:-1] = filter(None, segments[1:-1])\<close>\<close>

definition drop_empty_inner :: "string list \<Rightarrow> string list" where
  "drop_empty_inner segs =
     (if length segs \<le> 1 then segs
      else take 1 segs @ filter (\<lambda>s. s \<noteq> []) (butlast (drop 1 segs)) @ [last segs])"

definition urljoin :: "(string \<Rightarrow> bool) \<Rightarrow> string \<Rightarrow> string \<Rightarrow> error + string" where
  "urljoin host_ok base url0 =
     (if base = [] then Inr url0
      else if url0 = [] then Inr base
      else
        (case urlparse host_ok base '''' of
           Inl e \<Rightarrow> Inl e
         | Inr b \<Rightarrow>
            (case urlparse host_ok url0 (scheme b) of
               Inl e \<Rightarrow> Inl e
             | Inr r \<Rightarrow>
                if scheme r \<noteq> scheme b \<or> scheme r \<notin> set uses_relative then Inr url0
                else if scheme r \<in> set uses_netloc \<and> netloc r \<noteq> [] then Inr (urlunparse r)
                else
                  (let nl = (if scheme r \<in> set uses_netloc then netloc b else netloc r)
                   in if path r = [] \<and> params r = [] then
                        Inr (urlunparse (r\<lparr>netloc := nl, path := path b, params := params b,
                               query := (if query r = [] then query b else query r)\<rparr>))
                      else
                        (let base_parts = split (CHR ''/'') (path b);
                             base_parts' = (if last base_parts \<noteq> [] then butlast base_parts else base_parts);
                             segments = (if take 1 (path r) = ''/'' then split (CHR ''/'') (path r)
                                         else drop_empty_inner (base_parts' @ split (CHR ''/'') (path r)));
                             resolved = resolve_segments [] segments;
                             resolved' = (if last segments \<in> {''.'', ''..''} then resolved @ [[]] else resolved);
                             joined = join ''/'' resolved'
                         in Inr (urlunparse (r\<lparr>netloc := nl,
                                   path := (if joined = [] then ''/'' else joined)\<rparr>)))))))"

section \<open>The path tree\<close>

text \<open>
  The structure that \<open>build_file_structure\<close> returns is a Python dictionary whose values
  are URL strings (files) or dictionaries of the same kind (directories). A dictionary is
  an association list in insertion order without repeated keys.
\<close>

datatype node = File string | Dir "(string \<times> node) list"

type_synonym dict = "(string \<times> node) list"

text \<open>\<open>d[k] = v\<close>: an existing key keeps its place, a new key goes last.\<close>

fun dict_set :: "string \<Rightarrow> node \<Rightarrow> dict \<Rightarrow> dict" where
  "dict_set k v [] = [(k, v)]"
| "dict_set k v ((k', v') # d) = (if k' = k then (k, v) # d else (k', v') # dict_set k v d)"

text \<open>
  The inner loop of \<open>build_file_structure\<close> over the parts of one path, from the
  dictionary \<open>current\<close>; the result is \<open>current\<close> after the loop, with the changes made
  to the dictionaries below it.
\<close>

fun insert_parts :: "string list \<Rightarrow> string \<Rightarrow> dict \<Rightarrow> dict" where
  "insert_parts [] url current = current"
| "insert_parts [part] url current = dict_set part (File url) current"
| "insert_parts (part # rest) url current =
     (case map_of current part of
        None \<Rightarrow> dict_set part (Dir (insert_parts rest url [])) current
      | Some (Dir d) \<Rightarrow> dict_set part (Dir (insert_parts rest url d)) current
      | Some (File u) \<Rightarrow> insert_parts rest url current)"

text \<open>One round of the outer loop: a URL that does not parse, or whose path is empty
  once the slashes around it are stripped, leaves the structure as it is.\<close>

definition add_url :: "(string \<Rightarrow> bool) \<Rightarrow> dict \<Rightarrow> string \<Rightarrow> dict" where
  "add_url host_ok structure url =
     (case urlparse host_ok url '''' of
        Inl e \<Rightarrow> structure
      | Inr parsed \<Rightarrow>
          (let p = strip_chars ''/'' (path parsed)
           in if p = [] then structure
              else insert_parts (split (CHR ''/'') p) url structure))"

definition build_file_structure :: "(string \<Rightarrow> bool) \<Rightarrow> string list \<Rightarrow> dict" where
  "build_file_structure host_ok file_urls = foldl (add_url host_ok) [] file_urls"

text \<open>The URL strings at the leaves of a structure.\<close>

primrec leaf_urls :: "node \<Rightarrow> string set"
  and leaf_urls_dict :: "dict \<Rightarrow> string set"
  and leaf_urls_entry :: "string \<times> node \<Rightarrow> string set" where
  "leaf_urls (File u) = {u}"
| "leaf_urls (Dir d) = leaf_urls_dict d"
| "leaf_urls_dict [] = {}"
| "leaf_urls_dict (e # d) = leaf_urls_entry e \<union> leaf_urls_dict d"
| "leaf_urls_entry (k, n) = leaf_urls n"

section \<open>Regular expressions\<close>

text \<open>
  The patterns of the extractor use literal characters, character classes, greedy
  repetition of a character or class, alternation, one capturing group, \<open>\b\<close>, \<open>^\<close> and
  \<open>$\<close>. A match state is the position in the subject and the span of the group, when it
  has matched. \<open>rx_match\<close> lists the states after a match from a state, in the order in
  which Python's backtracking matcher tries them: a repetition tries the longest run
  first, an alternation its left branch first.
\<close>

datatype regex =
    Eps
  | Chr "char \<Rightarrow> bool"
  | Rep "char \<Rightarrow> bool" nat "nat option"
  | Seq regex regex
  | Alt regex regex
  | Group regex
  | WordBoundary
  | Bol
  | Eol

type_synonym mstate = "nat \<times> (nat \<times> nat) option"

definition is_word :: "char \<Rightarrow> bool" where
  "is_word c = (is_alpha c \<or> is_digit c \<or> c = CHR ''_'')"

text \<open>\<open>\b\<close> at position \<open>i\<close>: exactly one of the characters before and after is a word
  character.\<close>

definition at_boundary :: "string \<Rightarrow> nat \<Rightarrow> bool" where
  "at_boundary s i =
     ((0 < i \<and> i \<le> length s \<and> is_word (s ! (i - 1))) \<noteq> (i < length s \<and> is_word (s ! i)))"

text \<open>\<open>$\<close> without \<open>MULTILINE\<close>: at the end, or before a newline that ends the subject.\<close>

definition at_end :: "string \<Rightarrow> nat \<Rightarrow> bool" where
  "at_end s i = (i = length s \<or> (i + 1 = length s \<and> s ! i = CHR 0x0A))"

primrec rx_match :: "regex \<Rightarrow> string \<Rightarrow> mstate \<Rightarrow> mstate list" where
  "rx_match Eps s = (\<lambda>st. [st])"
| "rx_match (Chr p) s = (\<lambda>(i, g). if i < length s \<and> p (s ! i) then [(i + 1, g)] else [])"
| "rx_match (Rep p lo hi) s =
     (\<lambda>(i, g). let n = length (takeWhile p (drop i s));
                    m = (case hi of None \<Rightarrow> n | Some h \<Rightarrow> min n h)
                in map (\<lambda>k. (i + k, g)) (rev [lo..<Suc m]))"
| "rx_match (Seq a b) s = (\<lambda>st. concat (map (rx_match b s) (rx_match a s st)))"
| "rx_match (Alt a b) s = (\<lambda>st. rx_match a s st @ rx_match b s st)"
| "rx_match (Group a) s = (\<lambda>st. map (\<lambda>(j, g). (j, Some (fst st, j))) (rx_match a s st))"
| "rx_match WordBoundary s = (\<lambda>(i, g). if at_boundary s i then [(i, g)] else [])"
| "rx_match Bol s = (\<lambda>(i, g). if i = 0 then [(i, g)] else [])"
| "rx_match Eol s = (\<lambda>(i, g). if at_end s i then [(i, g)] else [])"

primrec has_group :: "regex \<Rightarrow> bool" where
  "has_group Eps = False"
| "has_group (Chr p) = False"
| "has_group (Rep p lo hi) = False"
| "has_group (Seq a b) = (has_group a \<or> has_group b)"
| "has_group (Alt a b) = (has_group a \<or> has_group b)"
| "has_group (Group a) = True"
| "has_group WordBoundary = False"
| "has_group Bol = False"
| "has_group Eol = False"

text \<open>The first match that starts at position \<open>i\<close>, if there is one.\<close>

definition match_at :: "regex \<Rightarrow> string \<Rightarrow> nat \<Rightarrow> mstate option" where
  "match_at r s i = (case rx_match r s (i, None) of [] \<Rightarrow> None | st # _ \<Rightarrow> Some st)"

text \<open>\<open>re.match(r, s)\<close> as a truth value.\<close>

definition re_match :: "regex \<Rightarrow> string \<Rightarrow> bool" where
  "re_match r s = (match_at r s 0 \<noteq> None)"

text \<open>What \<open>findall\<close> reports for a match that starts at \<open>i\<close>: the text of the group
  for a pattern with a group, the whole match otherwise.\<close>

definition match_text :: "regex \<Rightarrow> string \<Rightarrow> nat \<Rightarrow> mstate \<Rightarrow> string" where
  "match_text r s i st =
     (if has_group r
      then (case snd st of None \<Rightarrow> [] | Some (a, b) \<Rightarrow> take (b - a) (drop a s))
      else take (fst st - i) (drop i s))"

text \<open>\<open>re.findall(r, s)\<close>: the matches from left to right, each search starting where the
  match before it ended. (No pattern of the extractor matches the empty string; after
  an empty match the search here moves on by one character.)\<close>

function findall_from :: "regex \<Rightarrow> string \<Rightarrow> nat \<Rightarrow> string list" where
  "findall_from r s i =
     (if length s < i then []
      else (case match_at r s i of
              None \<Rightarrow> findall_from r s (Suc i)
            | Some st \<Rightarrow> match_text r s i st # findall_from r s (if i < fst st then fst st else Suc i)))"
  by pat_completeness auto
termination
  by (relation "measure (\<lambda>(r, s, i). Suc (length s) - i)") auto

definition findall :: "regex \<Rightarrow> string \<Rightarrow> string list" where
  "findall r s = findall_from r s 0"

text \<open>A literal string, and the same under \<open>re.IGNORECASE\<close>.\<close>

fun lit :: "string \<Rightarrow> regex" where
  "lit [] = Eps"
| "lit [c] = Chr (\<lambda>x. x = c)"
| "lit (c # cs) = Seq (Chr (\<lambda>x. x = c)) (lit cs)"

fun ilit :: "string \<Rightarrow> regex" where
  "ilit [] = Eps"
| "ilit [c] = Chr (\<lambda>x. lower_char x = lower_char c)"
| "ilit (c # cs) = Seq (Chr (\<lambda>x. lower_char x = lower_char c)) (ilit cs)"

fun seqs :: "regex list \<Rightarrow> regex" where
  "seqs [] = Eps"
| "seqs [r] = r"
| "seqs (r # rs) = Seq r (seqs rs)"

definition rep_star :: "(char \<Rightarrow> bool) \<Rightarrow> regex" where
  "rep_star p = Rep p 0 None"

definition rep_plus :: "(char \<Rightarrow> bool) \<Rightarrow> regex" where
  "rep_plus p = Rep p 1 None"

definition rep_opt :: "(char \<Rightarrow> bool) \<Rightarrow> regex" where
  "rep_opt p = Rep p 0 (Some 1)"

definition is_hex :: "char \<Rightarrow> bool" where
  "is_hex c = (is_digit c \<or> c \<in> set ''ABCDEFabcdef'')"

definition quote :: "char \<Rightarrow> bool" where
  "quote c = (c \<in> set [CHR 0x22, CHR 0x27])"

section \<open>The patterns of the extractor\<close>

text \<open>\<^verbatim>\<open>@import\s+["\']([^"\']+)["\']\<close>\<close>

definition import_pattern :: regex where
  "import_pattern = seqs [lit ''@import'', rep_plus is_space, Chr quote,
     Group (rep_plus (\<lambda>c. \<not> quote c)), Chr quote]"

text \<open>\<^verbatim>\<open>(https?://[^\s,]+)\<close>\<close>

definition img_srcset_pattern :: regex where
  "img_srcset_pattern = Group (seqs [lit ''http'', rep_opt (\<lambda>c. c = CHR ''s''), lit ''://'',
     rep_plus (\<lambda>c. \<not> is_space c \<and> c \<noteq> CHR '','')])"

text \<open>\<^verbatim>\<open>([^\s,]+)\<close>\<close>

definition source_srcset_pattern :: regex where
  "source_srcset_pattern = Group (rep_plus (\<lambda>c. \<not> is_space c \<and> c \<noteq> CHR '',''))"

text \<open>\<^verbatim>\<open>url\(["\']?([^"\')]+)["\']?\)\<close>\<close>

definition bg_image_pattern :: regex where
  "bg_image_pattern = seqs [lit ''url('', rep_opt quote,
     Group (rep_plus (\<lambda>c. \<not> quote c \<and> c \<noteq> CHR '')'')), rep_opt quote, lit '')'']"

text \<open>\<^verbatim>\<open>#([A-Fa-f0-9]{6}|[A-Fa-f0-9]{3})\b\<close>\<close>

definition hex_pattern :: regex where
  "hex_pattern = seqs [lit ''#'',
     Group (Alt (Rep is_hex 6 (Some 6)) (Rep is_hex 3 (Some 3))), WordBoundary]"

text \<open>\<^verbatim>\<open>rgb\s*\(\s*\d+\s*,\s*\d+\s*,\s*\d+\s*\)\<close>, with \<open>re.IGNORECASE\<close>\<close>

definition rgb_pattern :: regex where
  "rgb_pattern = seqs [ilit ''rgb'', rep_star is_space, lit ''('', rep_star is_space,
     rep_plus is_digit, rep_star is_space, lit '','', rep_star is_space,
     rep_plus is_digit, rep_star is_space, lit '','', rep_star is_space,
     rep_plus is_digit, rep_star is_space, lit '')'']"

text \<open>\<^verbatim>\<open>rgba\s*\(\s*\d+\s*,\s*\d+\s*,\s*\d+\s*,\s*[\d.]+\s*\)\<close>, with \<open>re.IGNORECASE\<close>\<close>

definition rgba_pattern :: regex where
  "rgba_pattern = seqs [ilit ''rgba'', rep_star is_space, lit ''('', rep_star is_space,
     rep_plus is_digit, rep_star is_space, lit '','', rep_star is_space,
     rep_plus is_digit, rep_star is_space, lit '','', rep_star is_space,
     rep_plus is_digit, rep_star is_space, lit '','', rep_star is_space,
     rep_plus (\<lambda>c. is_digit c \<or> c = CHR ''.''), rep_star is_space, lit '')'']"

text \<open>\<^verbatim>\<open>hsl\s*\(\s*\d+\s*,\s*\d+%\s*,\s*\d+%\s*\)\<close>, with \<open>re.IGNORECASE\<close>\<close>

definition hsl_pattern :: regex where
  "hsl_pattern = seqs [ilit ''hsl'', rep_star is_space, lit ''('', rep_star is_space,
     rep_plus is_digit, rep_star is_space, lit '','', rep_star is_space,
     rep_plus is_digit, lit ''%'', rep_star is_space, lit '','', rep_star is_space,
     rep_plus is_digit, lit ''%'', rep_star is_space, lit '')'']"

text \<open>\<^verbatim>\<open>^[A-Fa-f0-9]{3,6}$\<close>\<close>

definition bare_hex_pattern :: regex where
  "bare_hex_pattern = seqs [Bol, Rep is_hex 3 (Some 6), Eol]"

text \<open>\<^verbatim>\<open>font-family\s*:\s*([^;]+)\<close>, with \<open>re.IGNORECASE\<close>\<close>

definition inline_font_pattern :: regex where
  "inline_font_pattern = seqs [ilit ''font-family'', rep_star is_space, lit '':'', rep_star is_space,
     Group (rep_plus (\<lambda>c. c \<noteq> CHR '';''))]"

text \<open>\<^verbatim>\<open>font-family\s*:\s*([^;}]+)\<close>, with \<open>re.IGNORECASE\<close>\<close>

definition style_font_pattern :: regex where
  "style_font_pattern = seqs [ilit ''font-family'', rep_star is_space, lit '':'', rep_star is_space,
     Group (rep_plus (\<lambda>c. c \<noteq> CHR '';'' \<and> c \<noteq> CHR ''}''))]"

text \<open>\<^verbatim>\<open>@font-face\s*\{[^}]*font-family\s*:\s*["\']?([^"\';}]+)\<close>, with
  \<open>re.IGNORECASE | re.DOTALL\<close> (the pattern has no dot)\<close>

definition font_face_pattern :: regex where
  "font_face_pattern = seqs [ilit ''@font-face'', rep_star is_space, lit ''{'',
     rep_star (\<lambda>c. c \<noteq> CHR ''}''), ilit ''font-family'', rep_star is_space, lit '':'', rep_star is_space,
     rep_opt quote, Group (rep_plus (\<lambda>c. \<not> quote c \<and> c \<noteq> CHR '';'' \<and> c \<noteq> CHR ''}''))]"

section \<open>The parsed document\<close>

text \<open>
  The extractor reads the parsed page through \<open>find_all\<close>, \<open>get\<close> and \<open>string\<close>
  only. A document is the list of its tags in document order (the order in which
  \<open>find_all\<close> visits them); a tag has a name, its attributes with their values as
  written in the page, and its \<open>string\<close>: the text of a tag whose only child is text.
\<close>

record tag =
  tag_name :: string
  tag_attrs :: "(string \<times> string) list"
  tag_string :: "string option"

text \<open>\<open>tag.get(a)\<close>\<close>

definition get :: "tag \<Rightarrow> string \<Rightarrow> string option" where
  "get t a = map_of (tag_attrs t) a"

text \<open>\<open>tag.get(a, '')\<close>\<close>

definition get_or_empty :: "tag \<Rightarrow> string \<Rightarrow> string" where
  "get_or_empty t a = (case get t a of None \<Rightarrow> [] | Some v \<Rightarrow> v)"

text \<open>\<open>tag.string or ''\<close>\<close>

definition string_or_empty :: "tag \<Rightarrow> string" where
  "string_or_empty t = (case tag_string t of None \<Rightarrow> [] | Some v \<Rightarrow> v)"

text \<open>The attributes whose value the parser holds as a list of the words of the written
  value.\<close>

definition cdata_list_attribute :: "string \<Rightarrow> string \<Rightarrow> bool" where
  "cdata_list_attribute n a =
     (a \<in> set [''class'', ''accesskey'', ''dropzone'']
      \<or> (n \<in> set [''a'', ''link''] \<and> a \<in> set [''rel'', ''rev''])
      \<or> (n \<in> set [''td'', ''th''] \<and> a = ''headers'')
      \<or> (n = ''form'' \<and> a = ''accept-charset'')
      \<or> (n = ''object'' \<and> a = ''archive'')
      \<or> (n = ''area'' \<and> a = ''rel'')
      \<or> (n = ''icon'' \<and> a = ''sizes'')
      \<or> (n = ''iframe'' \<and> a = ''sandbox'')
      \<or> (n = ''output'' \<and> a = ''for''))"

text \<open>A keyword argument of \<open>find_all\<close>: \<open>attr=True\<close> or \<open>attr='value'\<close>.\<close>

datatype attr_filter = IsPresent | Is string

definition attr_matches :: "tag \<Rightarrow> string \<times> attr_filter \<Rightarrow> bool" where
  "attr_matches t af =
     (case af of (a, f) \<Rightarrow>
        (case get t a of
           None \<Rightarrow> (case f of IsPresent \<Rightarrow> False | Is w \<Rightarrow> w = [])
         | Some v \<Rightarrow>
            (case f of
               IsPresent \<Rightarrow> True
             | Is w \<Rightarrow>
                if cdata_list_attribute (tag_name t) a
                then w \<in> set (split_ws v) \<or> join '' '' (split_ws v) = w
                else v = w)))"

text \<open>\<open>soup.find_all(names, **filters)\<close>; no name restricts nothing.\<close>

definition find_all :: "string list \<Rightarrow> (string \<times> attr_filter) list \<Rightarrow> tag list \<Rightarrow> tag list" where
  "find_all names filters doc =
     filter (\<lambda>t. (names = [] \<or> tag_name t \<in> set names) \<and> list_all (attr_matches t) filters) doc"

section \<open>The extractor\<close>

record extractor =
  url :: string
  timeout :: int
  soup :: "tag list option"
  html_content :: "string option"
  base_url :: string

text \<open>\<open>WebsiteExtractor(url, timeout)\<close>: the constructor parses the URL for
  \<open>base_url\<close>; nothing is fetched yet.\<close>

definition get_base_url :: "(string \<Rightarrow> bool) \<Rightarrow> string \<Rightarrow> error + string" where
  "get_base_url host_ok u =
     (case urlparse host_ok u [] of
        Inl e \<Rightarrow> Inl e
      | Inr parsed \<Rightarrow> Inr (scheme parsed @ ''://'' @ netloc parsed))"

definition WebsiteExtractor :: "(string \<Rightarrow> bool) \<Rightarrow> string \<Rightarrow> int \<Rightarrow> error + extractor" where
  "WebsiteExtractor host_ok u tmo =
     (case get_base_url host_ok u of
        Inl e \<Rightarrow> Inl e
      | Inr b \<Rightarrow> Inr \<lparr>url = u, timeout = tmo, soup = None, html_content = None, base_url = b\<rparr>)"

text \<open>A loop that appends to a list and may raise: the appended items of every round in
  order, or the first error.\<close>

fun collect :: "('a \<Rightarrow> error + string list) \<Rightarrow> 'a list \<Rightarrow> error + string list" where
  "collect f [] = Inr []"
| "collect f (x # xs) =
     (case f x of
        Inl e \<Rightarrow> Inl e
      | Inr ys \<Rightarrow> (case collect f xs of Inl e \<Rightarrow> Inl e | Inr zs \<Rightarrow> Inr (ys @ zs)))"

text \<open>One loop after another, over the same list.\<close>

definition and_then :: "error + string list \<Rightarrow> error + string list \<Rightarrow> error + string list" where
  "and_then a b =
     (case a of
        Inl e \<Rightarrow> Inl e
      | Inr ys \<Rightarrow> (case b of Inl e \<Rightarrow> Inl e | Inr zs \<Rightarrow> Inr (ys @ zs)))"

text \<open>\<open>absolute_url = urljoin(self.url, ref)\<close>, then \<open>append(absolute_url)\<close>.\<close>

definition append_joined :: "(string \<Rightarrow> bool) \<Rightarrow> string \<Rightarrow> string \<Rightarrow> error + string list" where
  "append_joined host_ok u ref =
     (case urljoin host_ok u ref of Inl e \<Rightarrow> Inl e | Inr a \<Rightarrow> Inr [a])"

text \<open>\<open>any(s.lower().endswith(ext) for ext in exts)\<close>\<close>

definition has_extension :: "string list \<Rightarrow> string \<Rightarrow> bool" where
  "has_extension exts s = list_ex (endswith (lower s)) exts"

text \<open>The same, appended only when the absolute URL ends in one of the extensions.\<close>

definition append_joined_if :: "string list \<Rightarrow> (string \<Rightarrow> bool) \<Rightarrow> string \<Rightarrow> string \<Rightarrow> error + string list" where
  "append_joined_if exts host_ok u ref =
     (case urljoin host_ok u ref of
        Inl e \<Rightarrow> Inl e
      | Inr a \<Rightarrow> Inr (if has_extension exts a then [a] else []))"

text \<open>The body of the loops that read one attribute and skip a missing or empty value.\<close>

definition join_attr :: "(string \<Rightarrow> bool) \<Rightarrow> string \<Rightarrow> string \<Rightarrow> tag \<Rightarrow> error + string list" where
  "join_attr host_ok u a t =
     (case get t a of
        None \<Rightarrow> Inr []
      | Some v \<Rightarrow> if v = [] then Inr [] else append_joined host_ok u v)"

text \<open>
  \<open>list(set(xs))\<close> holds every element of \<open>xs\<close> once, in an order that the hashes of the
  strings fix and the program does not control: \<open>list_set xs ys\<close> says that \<open>ys\<close> is a
  possible value of it.
\<close>

definition list_set :: "string list \<Rightarrow> string list \<Rightarrow> bool" where
  "list_set xs ys = (distinct ys \<and> set ys = set xs)"

text \<open>An extraction over a parsed document ends as its loops do: with their error, or with
  \<open>list(set(...))\<close> of the list they built.\<close>

definition returns_list_set :: "error + string list \<Rightarrow> error + string list \<Rightarrow> bool" where
  "returns_list_set acc out =
     (case acc of
        Inl e \<Rightarrow> out = Inl e
      | Inr xs \<Rightarrow> (case out of Inl e \<Rightarrow> False | Inr ys \<Rightarrow> list_set xs ys))"

subsection \<open>Stylesheets and scripts\<close>

text \<open>The list \<open>css_files\<close> of \<open>extract_css_files\<close> before it is made a set.\<close>

definition css_files :: "(string \<Rightarrow> bool) \<Rightarrow> string \<Rightarrow> tag list \<Rightarrow> error + string list" where
  "css_files host_ok u doc =
     and_then
       (collect (join_attr host_ok u ''href'') (find_all [''link''] [(''rel'', Is ''stylesheet'')] doc))
       (collect (\<lambda>style. collect (append_joined host_ok u) (findall import_pattern (string_or_empty style)))
          (find_all [''style''] [] doc))"

text \<open>\<open>extract_css_files self out\<close>: the call can end with \<open>out\<close>, a list or an error.\<close>

definition extract_css_files :: "(string \<Rightarrow> bool) \<Rightarrow> extractor \<Rightarrow> error + string list \<Rightarrow> bool" where
  "extract_css_files host_ok self out =
     (case soup self of
        None \<Rightarrow> out = Inr []
      | Some doc \<Rightarrow> returns_list_set (css_files host_ok (url self) doc) out)"

definition js_files :: "(string \<Rightarrow> bool) \<Rightarrow> string \<Rightarrow> tag list \<Rightarrow> error + string list" where
  "js_files host_ok u doc =
     collect (join_attr host_ok u ''src'') (find_all [''script''] [(''src'', IsPresent)] doc)"

definition extract_js_files :: "(string \<Rightarrow> bool) \<Rightarrow> extractor \<Rightarrow> error + string list \<Rightarrow> bool" where
  "extract_js_files host_ok self out =
     (case soup self of
        None \<Rightarrow> out = Inr []
      | Some doc \<Rightarrow> returns_list_set (js_files host_ok (url self) doc) out)"

subsection \<open>Images\<close>

definition image_extensions :: "string list" where
  "image_extensions = [''.jpg'', ''.jpeg'', ''.png'', ''.gif'', ''.svg'', ''.webp'', ''.ico'', ''.bmp'']"

text \<open>The four loops of \<open>extract_images\<close>: \<open>img src\<close>, \<open>img srcset\<close>, \<open>source srcset\<close>
  and the \<open>url(...)\<close> of inline styles.\<close>

definition img_src_urls :: "(string \<Rightarrow> bool) \<Rightarrow> string \<Rightarrow> tag list \<Rightarrow> error + string list" where
  "img_src_urls host_ok u doc =
     collect (join_attr host_ok u ''src'') (find_all [''img''] [(''src'', IsPresent)] doc)"

definition img_srcset_urls :: "tag list \<Rightarrow> string list" where
  "img_srcset_urls doc =
     concat (map (\<lambda>img. findall img_srcset_pattern (get_or_empty img ''srcset''))
       (find_all [''img''] [(''srcset'', IsPresent)] doc))"

text \<open>\<open>urljoin(self.url, url.split()[0])\<close>, kept when it ends in an image extension.\<close>

definition source_srcset_item :: "(string \<Rightarrow> bool) \<Rightarrow> string \<Rightarrow> string \<Rightarrow> error + string list" where
  "source_srcset_item host_ok u tok =
     (case split_ws tok of
        [] \<Rightarrow> Inl IndexError
      | w # ws \<Rightarrow> append_joined_if image_extensions host_ok u w)"

definition source_srcset_urls :: "(string \<Rightarrow> bool) \<Rightarrow> string \<Rightarrow> tag list \<Rightarrow> error + string list" where
  "source_srcset_urls host_ok u doc =
     collect (\<lambda>source. collect (source_srcset_item host_ok u)
                (findall source_srcset_pattern (get_or_empty source ''srcset'')))
       (find_all [''source''] [(''srcset'', IsPresent)] doc)"

definition style_bg_urls :: "(string \<Rightarrow> bool) \<Rightarrow> string \<Rightarrow> tag list \<Rightarrow> error + string list" where
  "style_bg_urls host_ok u doc =
     collect (\<lambda>element. collect (append_joined_if image_extensions host_ok u)
                (findall bg_image_pattern (get_or_empty element ''style'')))
       (find_all [] [(''style'', IsPresent)] doc)"

definition images :: "(string \<Rightarrow> bool) \<Rightarrow> string \<Rightarrow> tag list \<Rightarrow> error + string list" where
  "images host_ok u doc =
     and_then (img_src_urls host_ok u doc)
       (and_then (Inr (img_srcset_urls doc))
          (and_then (source_srcset_urls host_ok u doc) (style_bg_urls host_ok u doc)))"

definition extract_images :: "(string \<Rightarrow> bool) \<Rightarrow> extractor \<Rightarrow> error + string list \<Rightarrow> bool" where
  "extract_images host_ok self out =
     (case soup self of
        None \<Rightarrow> out = Inr []
      | Some doc \<Rightarrow> returns_list_set (images host_ok (url self) doc) out)"

subsection \<open>Other files\<close>

definition other_extensions :: "string list" where
  "other_extensions = [''.pdf'', ''.doc'', ''.docx'', ''.xls'', ''.xlsx'', ''.zip'',
     ''.woff'', ''.woff2'', ''.ttf'', ''.eot'', ''.otf'',
     ''.mp4'', ''.webm'', ''.mp3'', ''.wav'', ''.ogg'']"

definition font_extensions :: "string list" where
  "font_extensions = [''.woff'', ''.woff2'', ''.ttf'', ''.eot'', ''.otf'']"

text \<open>The body of the loops over \<open>a href\<close> and \<open>link href\<close>: the extension is looked for
  in the attribute as written, the URL appended is the resolved one.\<close>

definition join_href_with_extension :: "string list \<Rightarrow> (string \<Rightarrow> bool) \<Rightarrow> string \<Rightarrow> tag \<Rightarrow> error + string list" where
  "join_href_with_extension exts host_ok u t =
     (case get t ''href'' of
        None \<Rightarrow> Inr []
      | Some href \<Rightarrow>
          if href \<noteq> [] \<and> has_extension exts href then append_joined host_ok u href else Inr [])"

definition other_files :: "(string \<Rightarrow> bool) \<Rightarrow> string \<Rightarrow> tag list \<Rightarrow> error + string list" where
  "other_files host_ok u doc =
     and_then
       (collect (join_href_with_extension other_extensions host_ok u)
          (find_all [''a''] [(''href'', IsPresent)] doc))
       (and_then
          (collect (join_href_with_extension font_extensions host_ok u)
             (find_all [''link''] [(''href'', IsPresent)] doc))
          (and_then
             (collect (join_attr host_ok u ''src'')
                (find_all [''video'', ''source''] [(''src'', IsPresent)] doc))
             (collect (join_attr host_ok u ''src'')
                (find_all [''audio'', ''source''] [(''src'', IsPresent)] doc))))"

definition extract_other_files :: "(string \<Rightarrow> bool) \<Rightarrow> extractor \<Rightarrow> error + string list \<Rightarrow> bool" where
  "extract_other_files host_ok self out =
     (case soup self of
        None \<Rightarrow> out = Inr []
      | Some doc \<Rightarrow> returns_list_set (other_files host_ok (url self) doc) out)"

subsection \<open>Colors and fonts\<close>

text \<open>
  \<open>colors\<close> and \<open>fonts\<close> are sets in the source; the functions end with \<open>sorted\<close>, so
  the order in which the sets are read does not show. The model lists their elements
  in the order the loops add them.
\<close>

definition inline_colors :: "tag list \<Rightarrow> string list" where
  "inline_colors doc =
     concat (map (\<lambda>element.
        (let style = get_or_empty element ''style''
         in findall hex_pattern style @ findall rgb_pattern style
            @ findall rgba_pattern style @ findall hsl_pattern style))
       (find_all [] [(''style'', IsPresent)] doc))"

definition style_tag_colors :: "tag list \<Rightarrow> string list" where
  "style_tag_colors doc =
     concat (map (\<lambda>style.
        (let style_content = string_or_empty style
         in map (\<lambda>c. ''#'' @ c) (findall hex_pattern style_content)
            @ findall rgb_pattern style_content
            @ findall rgba_pattern style_content @ findall hsl_pattern style_content))
       (find_all [''style''] [] doc))"

text \<open>One round of the loop that builds \<open>cleaned_colors\<close>.\<close>

definition clean_color :: "string \<Rightarrow> string" where
  "clean_color color =
     (if startswith color ''#'' then color
      else if re_match bare_hex_pattern color then ''#'' @ color
      else color)"

definition extract_colors :: "extractor \<Rightarrow> string list" where
  "extract_colors self =
     (case soup self of
        None \<Rightarrow> []
      | Some doc \<Rightarrow> sort (remdups (map clean_color (inline_colors doc @ style_tag_colors doc))))"

text \<open>\<open>font.strip().strip('"\'')\<close>, kept when it is not empty, for every piece of
  \<open>family.split(',')\<close>.\<close>

definition family_fonts :: "string \<Rightarrow> string list" where
  "family_fonts family =
     filter (\<lambda>f. f \<noteq> [])
       (map (\<lambda>font. strip_chars [CHR 0x22, CHR 0x27] (strip font)) (split (CHR '','') family))"

definition inline_fonts :: "tag list \<Rightarrow> string list" where
  "inline_fonts doc =
     concat (map (\<lambda>element.
        concat (map family_fonts (findall inline_font_pattern (get_or_empty element ''style''))))
       (find_all [] [(''style'', IsPresent)] doc))"

definition style_tag_fonts :: "tag list \<Rightarrow> string list" where
  "style_tag_fonts doc =
     concat (map (\<lambda>style.
        concat (map family_fonts (findall style_font_pattern (string_or_empty style))))
       (find_all [''style''] [] doc))"

definition font_face_fonts :: "tag list \<Rightarrow> string list" where
  "font_face_fonts doc =
     concat (map (\<lambda>style.
        filter (\<lambda>f. f \<noteq> []) (map strip (findall font_face_pattern (string_or_empty style))))
       (find_all [''style''] [] doc))"

definition extract_fonts :: "extractor \<Rightarrow> string list" where
  "extract_fonts self =
     (case soup self of
        None \<Rightarrow> []
      | Some doc \<Rightarrow> sort (remdups (inline_fonts doc @ style_tag_fonts doc @ font_face_fonts doc)))"

section \<open>The archive of \<open>download_all_files\<close>\<close>







section \<open>Predicates and inputs of the statements\<close>

text \<open>A check of bracketed hosts that accepts every host, as \<open>urlsplit\<close> did before it
  looked into them.\<close>

definition unchecked_host :: "string \<Rightarrow> bool" where
  "unchecked_host h = True"

text \<open>A URL that parses and whose path is empty once the slashes are stripped.\<close>

definition empty_path :: "(string \<Rightarrow> bool) \<Rightarrow> string \<Rightarrow> bool" where
  "empty_path host_ok u =
     (case urlparse host_ok u '''' of
        Inl e \<Rightarrow> False
      | Inr parsed \<Rightarrow> strip_chars ''/'' (path parsed) = [])"



text \<open>An extractor on which \<open>fetch_html\<close> has not run.\<close>

definition unfetched :: extractor where
  "unfetched = \<lparr>url = ''https://x.com/dir/page.html'', timeout = 30, soup = None,
     html_content = None, base_url = ''https://x.com''\<rparr>"

text \<open>An extractor after \<open>fetch_html\<close>, on a page with the tags \<open>doc\<close>.\<close>

definition fetched :: "tag list \<Rightarrow> extractor" where
  "fetched doc = \<lparr>url = ''https://x.com/dir/page.html'', timeout = 30, soup = Some doc,
     html_content = Some ''<html></html>'', base_url = ''https://x.com''\<rparr>"

text \<open>The page \<^verbatim>\<open><link rel=stylesheet href=/fonts/site.woff>\<close>: a stylesheet link to a
  font file.\<close>

definition font_link_page :: "tag list" where
  "font_link_page =
     [\<lparr>tag_name = ''link'', tag_attrs = [(''rel'', ''stylesheet''), (''href'', ''/fonts/site.woff'')],
       tag_string = None\<rparr>]"


section \<open>What a pattern can match\<close>




section \<open>What the design extractions look for\<close>








section \<open>Properties of the path tree\<close>

lemma leaf_urls_dict_set:
  "leaf_urls_dict (dict_set k v d) \<subseteq> leaf_urls v \<union> leaf_urls_dict d"
  by (induction d) (auto split: if_splits)

lemma leaf_urls_map_of:
  "map_of d k = Some n \<Longrightarrow> leaf_urls n \<subseteq> leaf_urls_dict d"
  by (induction d) (auto split: if_splits)

lemma leaf_urls_insert_parts:
  "leaf_urls_dict (insert_parts parts u current) \<subseteq> insert u (leaf_urls_dict current)"
proof (induction parts u current rule: insert_parts.induct)
  case (1 u current)
  then show ?case by auto
next
  case (2 part u current)
  then show ?case using leaf_urls_dict_set [of part "File u" current] by auto
next
  case (3 part v va u current)
  show ?case
  proof (cases "map_of current part")
    case None
    then show ?thesis
      using 3(1) [OF None] leaf_urls_dict_set [of part "Dir (insert_parts (v # va) u [])" current]
      by auto
  next
    case (Some n)
    show ?thesis
    proof (cases n)
      case (File w)
      then show ?thesis using Some 3(2) [OF Some File] by simp
    next
      case (Dir d)
      then show ?thesis
        using Some 3(3) [OF Some Dir] leaf_urls_map_of [OF Some]
          leaf_urls_dict_set [of part "Dir (insert_parts (v # va) u d)" current]
        by auto
    qed
  qed
qed

lemma leaf_urls_add_url:
  "leaf_urls_dict (add_url h st u) \<subseteq> insert u (leaf_urls_dict st)"
  using leaf_urls_insert_parts
  by (auto simp: add_url_def Let_def split: sum.splits)

lemma leaf_urls_foldl:
  "leaf_urls_dict (foldl (add_url h) st us) \<subseteq> leaf_urls_dict st \<union> set us"
proof (induction us arbitrary: st)
  case Nil
  then show ?case by simp
next
  case (Cons u us)
  then show ?case using leaf_urls_add_url [of h st u] by fastforce
qed

lemma add_url_empty_path: "empty_path h u \<Longrightarrow> add_url h st u = st"
  by (auto simp: empty_path_def add_url_def split: sum.splits)

lemma foldl_skip_empty:
  "foldl (add_url h) st (filter (\<lambda>u. \<not> empty_path h u) us) = foldl (add_url h) st us"
  by (induction us arbitrary: st) (auto simp: add_url_empty_path)

text \<open>
  Claim C10. For every list of URLs, every URL string at a leaf of the structure that
  \<open>build_file_structure\<close> returns is an element of the list; the URLs whose path is
  empty once the slashes are stripped contribute nothing (the structure is the one
  built without them); and the empty list gives the empty structure.
\<close>

theorem build_file_structure_leaves:
  "leaf_urls_dict (build_file_structure h file_urls) \<subseteq> set file_urls
   \<and> build_file_structure h (filter (\<lambda>u. \<not> empty_path h u) file_urls)
       = build_file_structure h file_urls
   \<and> build_file_structure h [] = []"
  using leaf_urls_foldl [of h "[]" file_urls] foldl_skip_empty [of h "[]" file_urls]
  by (simp add: build_file_structure_def)

text \<open>The theorem at the list of a site root, a bare host and one stylesheet: the two
  URLs without a path leave no entry.\<close>

theorem build_file_structure_leaves_witness:
  "leaf_urls_dict (build_file_structure unchecked_host
       [''https://x.com/'', ''https://x.com'', ''https://x.com/css/a.css''])
     \<subseteq> set [''https://x.com/'', ''https://x.com'', ''https://x.com/css/a.css'']
   \<and> build_file_structure unchecked_host [''https://x.com/'', ''https://x.com'', ''https://x.com/css/a.css'']
       = [(''css'', Dir [(''a.css'', File ''https://x.com/css/a.css'')])]"
proof -
  have "build_file_structure unchecked_host [''https://x.com/'', ''https://x.com'', ''https://x.com/css/a.css'']
       = [(''css'', Dir [(''a.css'', File ''https://x.com/css/a.css'')])]"
    by code_simp
  then show ?thesis
    using build_file_structure_leaves [of unchecked_host
        "[''https://x.com/'', ''https://x.com'', ''https://x.com/css/a.css'']"]
    by simp
qed








section \<open>Properties of the archive\<close>









section \<open>Properties of the four URL extractions\<close>


lemma returns_list_set_distinct: "returns_list_set acc (Inr r) \<Longrightarrow> distinct r"
  by (auto simp: returns_list_set_def list_set_def split: sum.splits)

text \<open>An extraction always has an outcome: the call ends, with a list or an error.\<close>

lemma returns_list_set_total: "\<exists>out. returns_list_set acc out"
proof (cases acc)
  case (Inl e)
  then show ?thesis by (auto simp: returns_list_set_def)
next
  case (Inr xs)
  have "returns_list_set (Inr xs) (Inr (remdups xs))"
    by (simp add: returns_list_set_def list_set_def)
  then show ?thesis using Inr by blast
qed

text \<open>
  Claim C7. On an extractor without a parsed document (\<open>soup\<close> is \<open>None\<close>:
  \<open>fetch_html\<close> has not succeeded) each of the six extractions returns the empty list:
  the empty list is the outcome of the four URL extractions and no error is, and
  \<open>extract_colors\<close> and \<open>extract_fonts\<close> are the empty list.
\<close>

theorem extraction_before_fetch:
  assumes "soup self = None"
  shows "(extract_css_files h self out \<longleftrightarrow> out = Inr [])
       \<and> (extract_js_files h self out \<longleftrightarrow> out = Inr [])
       \<and> (extract_images h self out \<longleftrightarrow> out = Inr [])
       \<and> (extract_other_files h self out \<longleftrightarrow> out = Inr [])
       \<and> extract_colors self = []
       \<and> extract_fonts self = []"
  using assms
  by (simp add: extract_css_files_def extract_js_files_def extract_images_def
      extract_other_files_def extract_colors_def extract_fonts_def)

theorem extraction_before_fetch_witness:
  "soup unfetched = None
   \<and> extract_css_files unchecked_host unfetched (Inr [])
   \<and> extract_js_files unchecked_host unfetched (Inr [])
   \<and> extract_images unchecked_host unfetched (Inr [])
   \<and> extract_other_files unchecked_host unfetched (Inr [])
   \<and> extract_colors unfetched = []
   \<and> extract_fonts unfetched = []"
proof -
  have n: "soup unfetched = None"
    by (simp add: unfetched_def)
  show ?thesis
    using n extraction_before_fetch [OF n, of unchecked_host "Inr []"] by simp
qed



text \<open>
  Claim C2, as the code has it. The claim says that no URL is in more than one of the
  four lists. Each extraction looks at the page on its own: the stylesheet link to a
  font file is a stylesheet for \<open>extract_css_files\<close> and a font for
  \<open>extract_other_files\<close>, and its URL is in both lists.
\<close>

theorem categories_disjoint_counterexample:
  "extract_css_files unchecked_host (fetched font_link_page) (Inr [''https://x.com/fonts/site.woff''])
   \<and> extract_other_files unchecked_host (fetched font_link_page) (Inr [''https://x.com/fonts/site.woff''])"
  by code_simp

text \<open>
  Claim C2, amended. Each of the four lists holds a URL at most once: the category
  is where the URL was found, a URL found in two ways is in two lists, and nothing is
  twice in one list.
\<close>

theorem extraction_lists_distinct:
  "(extract_css_files h self (Inr c) \<longrightarrow> distinct c)
   \<and> (extract_js_files h self (Inr j) \<longrightarrow> distinct j)
   \<and> (extract_images h self (Inr i) \<longrightarrow> distinct i)
   \<and> (extract_other_files h self (Inr ot) \<longrightarrow> distinct ot)"
  by (cases "soup self")
    (auto simp: extract_css_files_def extract_js_files_def extract_images_def
      extract_other_files_def dest: returns_list_set_distinct)

theorem extraction_lists_distinct_witness:
  "extract_css_files unchecked_host (fetched font_link_page) (Inr [''https://x.com/fonts/site.woff''])
   \<and> extract_js_files unchecked_host (fetched font_link_page) (Inr [])
   \<and> extract_images unchecked_host (fetched font_link_page) (Inr [])
   \<and> extract_other_files unchecked_host (fetched font_link_page) (Inr [''https://x.com/fonts/site.woff''])
   \<and> distinct [''https://x.com/fonts/site.woff'']"
proof -
  have a: "extract_css_files unchecked_host (fetched font_link_page) (Inr [''https://x.com/fonts/site.woff''])"
    by code_simp
  have b: "extract_js_files unchecked_host (fetched font_link_page) (Inr [])"
    by code_simp
  have c: "extract_images unchecked_host (fetched font_link_page) (Inr [])"
    by code_simp
  have d: "extract_other_files unchecked_host (fetched font_link_page) (Inr [''https://x.com/fonts/site.woff''])"
    by code_simp
  show ?thesis
    using a b c d extraction_lists_distinct [of unchecked_host "fetched font_link_page"
        "[''https://x.com/fonts/site.woff'']" "[]" "[]" "[''https://x.com/fonts/site.woff'']"]
    by blast
qed

section \<open>Properties of the resolution of references\<close>







section \<open>Properties of the matcher\<close>










section \<open>Properties of the patterns\<close>



















section \<open>Properties of \<open>extract_colors\<close>\<close>












section \<open>Properties of \<open>extract_fonts\<close>\<close>









section \<open>Properties of \<open>extract_images\<close>\<close>












end
